theory Spec2Isabelle
  imports Main "HOL-Library.Sublist"
begin

section \<open>Errors\<close>

text \<open>
  Go's \<open>error\<close> values. Errors produced by the standard library (\<open>net/url\<close>,
  \<open>net/http\<close>, \<open>encoding/json\<close>, \<open>database/sql\<close>) and by the output handler are
  opaque and carry their message; the other constructors are the wrappers the exporter
  builds with \<open>fmt.Errorf\<close>.
\<close>

datatype error =
    LibError string
  | FailedToFetchPages error
  | FailedToFetchRootPage string error
  | FailedToFetchChildPages string error
  | FailedToOpenDatabase error
  | FailedToCreateTable error
  | FailedToInsertPage error

section \<open>Data model\<close>

text \<open>\<open>models.Space\<close> and \<open>models.Page\<close>, with the fields the exporter reads and writes.\<close>

record Space =
  Key :: string

record Page =
  ID :: string
  Title :: string
  SpaceKey :: string
  ParentID :: string
  Version :: int
  Content :: string
  URL :: string

text \<open>
  The anonymous structs the JSON envelopes are decoded into: one element of \<open>results\<close> in
  a content listing, and the object returned for a single page (with its ancestors' ids).
\<close>

record page_result =
  res_ID :: string
  res_Title :: string
  res_Type :: string
  res_Space_Key :: string
  res_Body_Storage_Value :: string
  res_Version_Number :: int
  res_Links_WebUI :: string

record single_result =
  one_ID :: string
  one_Title :: string
  one_Space_Key :: string
  one_Body_Storage_Value :: string
  one_Version_Number :: int
  one_Links_WebUI :: string
  one_Ancestors :: "string list"

record 'r list_envelope =
  Results :: "'r list"
  Size :: int
  Limit :: int

section \<open>Transport\<close>

record api_url =
  Base :: string
  Path :: string
  RawQuery :: "(string \<times> string) list"

record http_request =
  Method :: string
  Target :: api_url
  Header :: "(string \<times> string) list"
  ReqBody :: "string option"

record http_response =
  StatusCode :: nat
  Body :: string

text \<open>
  The standard-library calls the client makes, taken as parameters: \<open>url.Parse\<close> and
  \<open>http.NewRequest\<close> by the error they may return, \<open>base64.StdEncoding.EncodeToString\<close>,
  and \<open>json.NewDecoder(resp.Body).Decode\<close> at each of the three target types.
\<close>

record stdlib =
  url_Parse :: "string \<Rightarrow> error option"
  http_NewRequest :: "string \<Rightarrow> api_url \<Rightarrow> string option \<Rightarrow> error option"
  base64_EncodeToString :: "string \<Rightarrow> string"
  json_Decode_spaces :: "string \<Rightarrow> error + Space list_envelope"
  json_Decode_pages :: "string \<Rightarrow> error + page_result list_envelope"
  json_Decode_page :: "string \<Rightarrow> error + single_result"

text \<open>
  \<open>ConfluenceClient\<close>. The \<open>http.Client\<close> is represented by its \<open>Do\<close> method: the
  network and the server behind it answer a request with a transport error or with a
  response of some status.
\<close>

record ConfluenceClient =
  BaseURL :: string
  Username :: string
  APIToken :: string
  HTTPClient_Do :: "http_request \<Rightarrow> error + http_response"

definition apiURL :: "ConfluenceClient \<Rightarrow> string \<Rightarrow> (string \<times> string) list option \<Rightarrow> api_url" where
  "apiURL c endpoint params =
     \<lparr>Base = BaseURL c, Path = endpoint,
      RawQuery = (case params of None \<Rightarrow> [] | Some ps \<Rightarrow> ps)\<rparr>"

definition build_request ::
  "stdlib \<Rightarrow> ConfluenceClient \<Rightarrow> string \<Rightarrow> string \<Rightarrow> (string \<times> string) list option
     \<Rightarrow> string option \<Rightarrow> http_request" where
  "build_request L c method endpoint params body =
     (let auth = base64_EncodeToString L (Username c @ '':'' @ APIToken c)
      in \<lparr>Method = method, Target = apiURL c endpoint params,
          Header = [(''Authorization'', ''Basic '' @ auth), (''Content-Type'', ''application/json'')],
          ReqBody = body\<rparr>)"

text \<open>
  \<open>sendRequest\<close>: parse the base URL, build the request, add the headers, and return
  whatever \<open>c.HTTPClient.Do(req)\<close> returns. The response's status is not inspected.
\<close>

definition sendRequest ::
  "stdlib \<Rightarrow> ConfluenceClient \<Rightarrow> string \<Rightarrow> string \<Rightarrow> (string \<times> string) list option
     \<Rightarrow> string option \<Rightarrow> error + http_response" where
  "sendRequest L c method endpoint params body =
     (case url_Parse L (BaseURL c) of
        Some err \<Rightarrow> Inl err
      | None \<Rightarrow>
          (case http_NewRequest L method (apiURL c endpoint params) body of
             Some err \<Rightarrow> Inl err
           | None \<Rightarrow> HTTPClient_Do c (build_request L c method endpoint params body)))"

section \<open>Paginated listings\<close>

definition limit :: nat where
  "limit = 25"

text \<open>\<open>strconv.Itoa\<close> on the non-negative offsets and the limit the client formats.\<close>

definition digit :: "nat \<Rightarrow> char" where
  "digit d = ''0123456789'' ! d"

fun Itoa :: "nat \<Rightarrow> string" where
  "Itoa n = (if n < 10 then [digit n] else Itoa (n div 10) @ [digit (n mod 10)])"

declare Itoa.simps [simp del]

text \<open>
  The three listing methods run the same loop: request the page at \<open>start\<close>, decode it,
  append its records, stop on a page shorter than \<open>limit\<close>, otherwise advance \<open>start\<close> by
  \<open>limit\<close>. The loop is written once, over the request-and-decode step \<open>fetch\<close> of the method
  and its conversion \<open>conv\<close> of a decoded record; a loop that never meets a short page does
  not return, which is the value \<open>None\<close>. A failed request or decode returns the error
  alone (\<open>return nil, err\<close>). The offset starts at 0 and only grows; it is a natural
  number here, which Go's \<open>int\<close> holds as long as it stays below \<open>2 ^ 31\<close>, and the
  statements about the loop keep it there.
\<close>

partial_function (option) paginate ::
  "(nat \<Rightarrow> error + 'r list_envelope) \<Rightarrow> ('r \<Rightarrow> 'a) \<Rightarrow> nat \<Rightarrow> 'a list \<Rightarrow> (error + 'a list) option" where
  "paginate fetch conv start acc =
     (case fetch start of
        Inl err \<Rightarrow> Some (Inl err)
      | Inr result \<Rightarrow>
          (let all = acc @ map conv (Results result)
           in if length (Results result) < limit then Some (Inr all)
              else paginate fetch conv (start + limit) all))"

declare paginate.simps [code]

definition decode_with ::
  "(string \<Rightarrow> error + 'b) \<Rightarrow> error + http_response \<Rightarrow> error + 'b" where
  "decode_with dec r = (case r of Inl err \<Rightarrow> Inl err | Inr resp \<Rightarrow> dec (Body resp))"

definition GetSpaces_fetch :: "stdlib \<Rightarrow> ConfluenceClient \<Rightarrow> nat \<Rightarrow> error + Space list_envelope" where
  "GetSpaces_fetch L c start =
     decode_with (json_Decode_spaces L)
       (sendRequest L c ''GET'' ''/rest/api/space''
          (Some [(''start'', Itoa start), (''limit'', Itoa limit)]) None)"

definition GetSpaces :: "stdlib \<Rightarrow> ConfluenceClient \<Rightarrow> (error + Space list) option" where
  "GetSpaces L c = paginate (GetSpaces_fetch L c) (\<lambda>s. s) 0 []"

definition GetPages_fetch ::
  "stdlib \<Rightarrow> ConfluenceClient \<Rightarrow> string \<Rightarrow> nat \<Rightarrow> error + page_result list_envelope" where
  "GetPages_fetch L c spaceKey start =
     decode_with (json_Decode_pages L)
       (sendRequest L c ''GET'' ''/rest/api/content''
          (Some [(''spaceKey'', spaceKey), (''type'', ''page''),
                 (''expand'', ''body.storage,version,space''),
                 (''start'', Itoa start), (''limit'', Itoa limit)]) None)"

text \<open>The \<open>models.Page\<close> literal of \<open>GetPages\<close>: \<open>ParentID\<close> is not set and keeps Go's zero value.\<close>

definition GetPages_page :: "page_result \<Rightarrow> Page" where
  "GetPages_page p =
     \<lparr>ID = res_ID p, Title = res_Title p, SpaceKey = res_Space_Key p, ParentID = [],
      Version = res_Version_Number p, Content = res_Body_Storage_Value p,
      URL = res_Links_WebUI p\<rparr>"

definition GetPages :: "stdlib \<Rightarrow> ConfluenceClient \<Rightarrow> string \<Rightarrow> (error + Page list) option" where
  "GetPages L c spaceKey = paginate (GetPages_fetch L c spaceKey) GetPages_page 0 []"

definition GetChildPages_fetch ::
  "stdlib \<Rightarrow> ConfluenceClient \<Rightarrow> string \<Rightarrow> nat \<Rightarrow> error + page_result list_envelope" where
  "GetChildPages_fetch L c parentPageID start =
     decode_with (json_Decode_pages L)
       (sendRequest L c ''GET'' (''/rest/api/content/'' @ parentPageID @ ''/child/page'')
          (Some [(''expand'', ''body.storage,version,space''),
                 (''start'', Itoa start), (''limit'', Itoa limit)]) None)"

definition GetChildPages_page :: "string \<Rightarrow> page_result \<Rightarrow> Page" where
  "GetChildPages_page parentPageID p =
     \<lparr>ID = res_ID p, Title = res_Title p, SpaceKey = res_Space_Key p, ParentID = parentPageID,
      Version = res_Version_Number p, Content = res_Body_Storage_Value p,
      URL = res_Links_WebUI p\<rparr>"

definition GetChildPages :: "stdlib \<Rightarrow> ConfluenceClient \<Rightarrow> string \<Rightarrow> (error + Page list) option" where
  "GetChildPages L c parentPageID =
     paginate (GetChildPages_fetch L c parentPageID) (GetChildPages_page parentPageID) 0 []"

text \<open>\<open>GetPage\<close>: one request, no loop; the parent is the last ancestor, when there is one.\<close>

definition GetPage :: "stdlib \<Rightarrow> ConfluenceClient \<Rightarrow> string \<Rightarrow> error + Page" where
  "GetPage L c pageID =
     (case decode_with (json_Decode_page L)
             (sendRequest L c ''GET'' (''/rest/api/content/'' @ pageID)
                (Some [(''expand'', ''body.storage,version,space,ancestors'')]) None) of
        Inl err \<Rightarrow> Inl err
      | Inr result \<Rightarrow>
          Inr \<lparr>ID = one_ID result, Title = one_Title result, SpaceKey = one_Space_Key result,
               ParentID = (if length (one_Ancestors result) > 0 then last (one_Ancestors result) else []),
               Version = one_Version_Number result, Content = one_Body_Storage_Value result,
               URL = one_Links_WebUI result\<rparr>)"

section \<open>Tree resolver\<close>

text \<open>
  The \<open>for _, child := range children\<close> loop shared by \<open>fetchPageTree\<close> and
  \<open>collectChildPages\<close>: resolve each child's subtree with \<open>collect\<close> and append it; the first
  error is returned as it is. A call of \<open>collect\<close> that does not return makes the loop not
  return.
\<close>

fun appendSubtrees ::
  "(Page \<Rightarrow> (error + Page list) option) \<Rightarrow> Page list \<Rightarrow> Page list \<Rightarrow> (error + Page list) option" where
  "appendSubtrees collect [] pages = Some (Inr pages)"
| "appendSubtrees collect (child # rest) pages =
     Option.bind (collect child)
       (\<lambda>r. case r of
              Inl err \<Rightarrow> Some (Inl err)
            | Inr subtree \<Rightarrow> appendSubtrees collect rest (pages @ subtree))"

lemma appendSubtrees_mono [partial_function_mono]:
  assumes "\<And>child. mono_option (\<lambda>f. collect f child)"
  shows "mono_option (\<lambda>f. appendSubtrees (\<lambda>child. collect f child) children pages)"
proof (induction children arbitrary: pages)
  case Nil
  show ?case by (simp add: option.const_mono)
next
  case (Cons child rest)
  have "mono_option (\<lambda>f. case y of Inl err \<Rightarrow> Some (Inl err)
          | Inr subtree \<Rightarrow> appendSubtrees (collect f) rest (pages @ subtree))" for y
    by (cases y) (simp_all add: option.const_mono Cons.IH)
  with assms show ?case
    by (auto intro!: partial_function_mono)
qed

text \<open>
  \<open>collectChildPages\<close> recurses on every child it is given; it keeps no record of the ids
  it has seen. Recursion that never ends is the value \<open>None\<close>.
\<close>

partial_function (option) collectChildPages ::
  "stdlib \<Rightarrow> ConfluenceClient \<Rightarrow> Page \<Rightarrow> (error + Page list) option" where
  "collectChildPages L c page =
     Option.bind (GetChildPages L c (ID page))
       (\<lambda>r. case r of
              Inl err \<Rightarrow> Some (Inl (FailedToFetchChildPages (ID page) err))
            | Inr children \<Rightarrow> appendSubtrees (collectChildPages L c) children [page])"

declare collectChildPages.simps [code]

definition fetchPageTree ::
  "stdlib \<Rightarrow> ConfluenceClient \<Rightarrow> string \<Rightarrow> (error + Page list) option" where
  "fetchPageTree L c rootPageID =
     (case GetPage L c rootPageID of
        Inl err \<Rightarrow> Some (Inl (FailedToFetchRootPage rootPageID err))
      | Inr rootPage \<Rightarrow>
          Option.bind (GetChildPages L c (ID rootPage))
            (\<lambda>r. case r of
                   Inl err \<Rightarrow> Some (Inl (FailedToFetchChildPages rootPageID err))
                 | Inr children \<Rightarrow> appendSubtrees (collectChildPages L c) children [rootPage]))"

section \<open>Pipeline driver\<close>

text \<open>
  The lines \<open>exportSpace\<close> writes with \<open>log.Printf\<close>, by their format and arguments. The
  progress bar printed to standard output is built from wall-clock time and floating
  point and is left out, with the \<open>cfg\<close> and \<open>progress\<close> parameters that only feed it.
\<close>

datatype log_line =
    Fetching_pages_from_space string
  | Found_pages_to_export nat string
  | Failed_to_save_page string error

text \<open>
  \<open>handler.SavePage(client, page, spaceKey)\<close> of the \<open>output.Handler\<close> interface, over the
  handler's state: it returns \<open>nil\<close> or an error, and the state it leaves.
\<close>

type_synonym 's SavePage = "'s \<Rightarrow> ConfluenceClient \<Rightarrow> Page \<Rightarrow> string \<Rightarrow> error option \<times> 's"

fun savePages ::
  "'s SavePage \<Rightarrow> ConfluenceClient \<Rightarrow> string \<Rightarrow> Page list \<Rightarrow> 's \<times> log_line list \<Rightarrow> 's \<times> log_line list" where
  "savePages save c spaceKey [] st = st"
| "savePages save c spaceKey (page # rest) (h, logged) =
     (case save h c page spaceKey of
        (Some err, h') \<Rightarrow>
          savePages save c spaceKey rest (h', logged @ [Failed_to_save_page (Title page) err])
      | (None, h') \<Rightarrow> savePages save c spaceKey rest (h', logged))"

definition exportSpace ::
  "stdlib \<Rightarrow> ConfluenceClient \<Rightarrow> string \<Rightarrow> 's SavePage \<Rightarrow> 's \<times> log_line list
     \<Rightarrow> (error option \<times> 's \<times> log_line list) option" where
  "exportSpace L c spaceKey save st =
     (case st of (h, logged) \<Rightarrow>
        Option.bind (GetPages L c spaceKey)
          (\<lambda>r. case r of
                 Inl err \<Rightarrow>
                   Some (Some (FailedToFetchPages err),
                         h, logged @ [Fetching_pages_from_space spaceKey])
               | Inr pages \<Rightarrow>
                   Some (None,
                         savePages save c spaceKey pages
                           (h, logged @ [Fetching_pages_from_space spaceKey,
                                         Found_pages_to_export (length pages) spaceKey]))))"

section \<open>File names\<close>

text \<open>
  \<open>strings.NewReplacer(oldnew...)\<close> and \<open>Replace\<close>: scanning the input from the left, the
  first pair, in argument order, whose old string starts at the current position is
  replaced, and the scan continues behind it; a byte where no old string starts is
  copied. All old strings of the exporter are non-empty; a pair with an empty old string
  is not given Go's meaning here.
\<close>

type_synonym Replacer = "(string \<times> string) list"

fun NewReplacer :: "string list \<Rightarrow> Replacer" where
  "NewReplacer (old # new # rest) = (old, new) # NewReplacer rest"
| "NewReplacer _ = []"

function Replace :: "Replacer \<Rightarrow> string \<Rightarrow> string" where
  "Replace r [] = []"
| "Replace r (c # cs) =
     (case find (\<lambda>(old, new). old \<noteq> [] \<and> prefix old (c # cs)) r of
        Some (old, new) \<Rightarrow> new @ Replace r (drop (length old) (c # cs))
      | None \<Rightarrow> c # Replace r cs)"
  by pat_completeness auto
termination
  by (relation "measure (\<lambda>(r, s). length s)") (auto simp: find_Some_iff)

definition getSafeFilename :: "string \<Rightarrow> string" where
  "getSafeFilename name =
     Replace (NewReplacer
       [''/'', ''-'',
        [CHR 0x5C], ''-'',
        '':'', ''-'',
        ''*'', ''-'',
        ''?'', ''-'',
        [CHR 0x22], ''-'',
        ''<'', ''-'',
        ''>'', ''-'',
        ''|'', ''-'',
        '' '', ''_'']) name"

section \<open>Embedded store\<close>


record row =
  col_uid :: string
  col_title :: string
  col_body :: string
  col_link :: string

text \<open>
  The database behind \<open>*sql.DB\<close>: whether the handle has been closed, and the rows of
  table \<open>pages\<close> when the table exists.
\<close>

record sql_DB =
  closed :: bool
  pages_table :: "row list option"


definition Exec_create_table :: "sql_DB \<Rightarrow> error option \<times> sql_DB" where
  "Exec_create_table db =
     (if closed db then (Some (LibError ''sql: database is closed''), db)
      else (None, db\<lparr>pages_table := Some (case pages_table db of None \<Rightarrow> [] | Some rows \<Rightarrow> rows)\<rparr>))"


definition InitDB :: "(string \<Rightarrow> error + sql_DB) \<Rightarrow> string \<Rightarrow> error + sql_DB" where
  "InitDB sql_Open dbPath =
     (case sql_Open dbPath of
        Inl err \<Rightarrow> Inl (FailedToOpenDatabase err)
      | Inr db \<Rightarrow>
          (case Exec_create_table db of
             (Some err, db') \<Rightarrow> Inl (FailedToCreateTable err)
           | (None, db') \<Rightarrow> Inr db'))"


definition CloseDB :: "sql_DB option \<Rightarrow> sql_DB option" where
  "CloseDB db = (case db of None \<Rightarrow> None | Some d \<Rightarrow> Some (d\<lparr>closed := True\<rparr>))"

section \<open>Notions used in the statements\<close>

text \<open>
  The page of records a listing receives as its \<open>i\<close>-th response, at offset \<open>limit * i\<close>;
  whether that response arrived, decoded and was full, or short; and the records of
  responses \<open>j\<close> up to \<open>k - 1\<close>, converted, in response order.
\<close>

definition page_at :: "(nat \<Rightarrow> error + 'r list_envelope) \<Rightarrow> nat \<Rightarrow> 'r list" where
  "page_at fetch i = (case fetch (limit * i) of Inl err \<Rightarrow> [] | Inr result \<Rightarrow> Results result)"

definition full_page :: "(nat \<Rightarrow> error + 'r list_envelope) \<Rightarrow> nat \<Rightarrow> bool" where
  "full_page fetch i =
     (case fetch (limit * i) of Inl err \<Rightarrow> False | Inr result \<Rightarrow> limit \<le> length (Results result))"

definition short_page :: "(nat \<Rightarrow> error + 'r list_envelope) \<Rightarrow> nat \<Rightarrow> bool" where
  "short_page fetch i =
     (case fetch (limit * i) of Inl err \<Rightarrow> False | Inr result \<Rightarrow> length (Results result) < limit)"

definition collected :: "(nat \<Rightarrow> error + 'r list_envelope) \<Rightarrow> ('r \<Rightarrow> 'a) \<Rightarrow> nat \<Rightarrow> nat \<Rightarrow> 'a list" where
  "collected fetch conv j k = concat (map (\<lambda>i. map conv (page_at fetch i)) [j..<k])"

text \<open>
  Response \<open>k\<close> is the first short one, respectively the first failed one, every earlier
  response being full. The offsets stay below \<open>2 ^ 31\<close>, where Go's \<open>int\<close> and the natural
  numbers of the model agree on every platform.
\<close>

definition first_short_page :: "(nat \<Rightarrow> error + 'r list_envelope) \<Rightarrow> nat \<Rightarrow> bool" where
  "first_short_page fetch k \<longleftrightarrow>
     limit * k < 2 ^ 31 \<and> (\<forall>i<k. full_page fetch i) \<and> short_page fetch k"

definition first_failed_page :: "(nat \<Rightarrow> error + 'r list_envelope) \<Rightarrow> nat \<Rightarrow> error \<Rightarrow> bool" where
  "first_failed_page fetch k err \<longleftrightarrow>
     limit * k < 2 ^ 31 \<and> (\<forall>i<k. full_page fetch i) \<and> fetch (limit * k) = Inl err"

text \<open>
  A finite page tree, its pre-order, its number of nodes, and what it means for the client
  to serve it: the child listing of every node returns the roots of the node's subtrees,
  in order.
\<close>

datatype ptree = Node Page "ptree list"

fun root :: "ptree \<Rightarrow> Page" where
  "root (Node p ts) = p"

fun preorder :: "ptree \<Rightarrow> Page list" where
  "preorder (Node p ts) = p # concat (map preorder ts)"

fun nodes :: "ptree \<Rightarrow> nat" where
  "nodes (Node p ts) = Suc (sum_list (map nodes ts))"

fun serves :: "stdlib \<Rightarrow> ConfluenceClient \<Rightarrow> ptree \<Rightarrow> bool" where
  "serves L c (Node p ts) \<longleftrightarrow>
     GetChildPages L c (ID p) = Some (Inr (map root ts)) \<and> list_all (serves L c) ts"

text \<open>The handler's state after \<open>SavePage\<close> has been called on each of \<open>pages\<close> in turn.\<close>

definition handler_after :: "'s SavePage \<Rightarrow> ConfluenceClient \<Rightarrow> string \<Rightarrow> 's \<Rightarrow> Page list \<Rightarrow> 's" where
  "handler_after save c spaceKey h pages = foldl (\<lambda>h' p. snd (save h' c p spaceKey)) h pages"

text \<open>One log line for every page whose \<open>SavePage\<close> fails, in page order.\<close>

definition failures ::
  "'s SavePage \<Rightarrow> ConfluenceClient \<Rightarrow> string \<Rightarrow> 's \<Rightarrow> Page list \<Rightarrow> log_line list" where
  "failures save c spaceKey h pages =
     concat (map (\<lambda>i.
        case fst (save (handler_after save c spaceKey h (take i pages)) c (pages ! i) spaceKey) of
          None \<Rightarrow> []
        | Some err \<Rightarrow> [Failed_to_save_page (Title (pages ! i)) err]) [0..<length pages])"

text \<open>The bytes the replacer of \<open>getSafeFilename\<close> rewrites, and its effect on one byte.\<close>

definition hostile :: "char set" where
  "hostile = {CHR ''/'', CHR 0x5C, CHR '':'', CHR ''*'', CHR ''?'', CHR 0x22,
              CHR ''<'', CHR ''>'', CHR ''|'', CHR '' ''}"

definition safe_byte :: "char \<Rightarrow> char" where
  "safe_byte b = (if b = CHR '' '' then CHR ''_'' else if b \<in> hostile then CHR ''-'' else b)"

definition is2xx :: "nat \<Rightarrow> bool" where
  "is2xx status \<longleftrightarrow> 200 \<le> status \<and> status < 300"



text \<open>An open database whose table \<open>pages\<close> exists and respects its primary key.\<close>

definition primary_key_holds :: "sql_DB \<Rightarrow> bool" where
  "primary_key_holds db \<longleftrightarrow>
     \<not> closed db \<and> (case pages_table db of None \<Rightarrow> False | Some rows \<Rightarrow> distinct (map col_uid rows))"

section \<open>A concrete wiki\<close>

text \<open>
  A server and a decoder to instantiate the statements on. The server answers with a
  body naming the path, the space key and the offset of the request; the decoder maps
  such a body to the records stored under it. Space \<open>TEAM\<close> has 30 pages, as have the
  space listing and the children of page \<open>BIG\<close>; space \<open>DOCS\<close> has three pages; page \<open>R\<close> has
  children \<open>A\<close> and \<open>B\<close>, and \<open>A\<close> has child \<open>A1\<close>; pages \<open>P\<close> and \<open>Q\<close> list each other as child;
  space \<open>LOOP\<close> answers every offset with a full page; the second request to space \<open>DOWN\<close>
  times out and the second response of space \<open>TORN\<close> does not decode; every request to
  space \<open>GONE\<close> is answered with status 404.
\<close>

definition param :: "http_request \<Rightarrow> string \<Rightarrow> string" where
  "param req k = (case map_of (RawQuery (Target req)) k of None \<Rightarrow> [] | Some v \<Rightarrow> v)"

definition echo :: "http_request \<Rightarrow> string" where
  "echo req = Path (Target req) @ ''|'' @ param req ''spaceKey'' @ ''|'' @ param req ''start''"

definition wiki_Do :: "http_request \<Rightarrow> error + http_response" where
  "wiki_Do req =
     (if param req ''spaceKey'' = ''DOWN'' \<and> param req ''start'' = ''25''
      then Inl (LibError ''context deadline exceeded'')
      else if param req ''spaceKey'' = ''GONE''
      then Inr \<lparr>StatusCode = 404, Body = ''gone''\<rparr>
      else Inr \<lparr>StatusCode = 200, Body = echo req\<rparr>)"

definition wiki :: ConfluenceClient where
  "wiki = \<lparr>BaseURL = ''https://wiki.example/wiki'', Username = ''user'', APIToken = ''token'',
           HTTPClient_Do = wiki_Do\<rparr>"

definition rec :: "string \<Rightarrow> page_result" where
  "rec i = \<lparr>res_ID = i, res_Title = ''Page '' @ i, res_Type = ''page'', res_Space_Key = ''TEAM'',
            res_Body_Storage_Value = ''<p>'' @ i @ ''</p>'', res_Version_Number = 1,
            res_Links_WebUI = ''/pages/'' @ i\<rparr>"

definition one :: "string \<Rightarrow> single_result" where
  "one i = \<lparr>one_ID = i, one_Title = ''Page '' @ i, one_Space_Key = ''TEAM'',
            one_Body_Storage_Value = ''<p>'' @ i @ ''</p>'', one_Version_Number = 1,
            one_Links_WebUI = ''/pages/'' @ i, one_Ancestors = []\<rparr>"

definition envelope :: "'r list \<Rightarrow> 'r list_envelope" where
  "envelope rs = \<lparr>Results = rs, Size = int (length rs), Limit = 25\<rparr>"

definition wiki_spaces :: "string \<Rightarrow> error + Space list_envelope" where
  "wiki_spaces b =
     (if b = ''/rest/api/space||0'' then Inr (envelope (map (\<lambda>n. \<lparr>Key = Itoa n\<rparr>) [0..<25]))
      else if b = ''/rest/api/space||25'' then Inr (envelope (map (\<lambda>n. \<lparr>Key = Itoa n\<rparr>) [25..<30]))
      else Inr (envelope []))"

definition wiki_pages :: "string \<Rightarrow> error + page_result list_envelope" where
  "wiki_pages b =
     (if b = ''/rest/api/content|TEAM|0'' \<or> b = ''/rest/api/content/BIG/child/page||0''
         \<or> b = ''/rest/api/content|DOWN|0'' \<or> b = ''/rest/api/content|TORN|0''
      then Inr (envelope (map (\<lambda>n. rec (Itoa n)) [0..<25]))
      else if b = ''/rest/api/content|TEAM|25'' \<or> b = ''/rest/api/content/BIG/child/page||25''
      then Inr (envelope (map (\<lambda>n. rec (Itoa n)) [25..<30]))
      else if b = ''/rest/api/content|TORN|25''
      then Inl (LibError ''unexpected EOF'')
      else if prefix ''/rest/api/content|LOOP|'' b
      then Inr (envelope (map (\<lambda>n. rec (Itoa n)) [0..<25]))
      else if b = ''/rest/api/content|DOCS|0''
      then Inr (envelope [rec ''1'', rec ''2'', rec ''3''])
      else if b = ''/rest/api/content/R/child/page||0''
      then Inr (envelope [rec ''A'', rec ''B''])
      else if b = ''/rest/api/content/A/child/page||0''
      then Inr (envelope [rec ''A1''])
      else if b = ''/rest/api/content/P/child/page||0''
      then Inr (envelope [rec ''Q''])
      else if b = ''/rest/api/content/Q/child/page||0''
      then Inr (envelope [rec ''P''])
      else Inr (envelope []))"

definition wiki_page :: "string \<Rightarrow> error + single_result" where
  "wiki_page b =
     (if b = ''/rest/api/content/R||'' then Inr (one ''R'')
      else if b = ''/rest/api/content/P||'' then Inr (one ''P'')
      else Inl (LibError ''json: cannot unmarshal''))"

definition lib :: stdlib where
  "lib = \<lparr>url_Parse = (\<lambda>u. None), http_NewRequest = (\<lambda>m u b. None),
          base64_EncodeToString = (\<lambda>s. s),
          json_Decode_spaces = wiki_spaces, json_Decode_pages = wiki_pages,
          json_Decode_page = wiki_page\<rparr>"

text \<open>
  A handler that lists the titles it saved and fails on page \<open>2\<close>; a client without
  network; a database not yet holding the table.
\<close>

definition flaky_save :: "string list SavePage" where
  "flaky_save h c page spaceKey =
     (if ID page = ''2'' then (Some (LibError ''no space left on device''), h)
      else (None, h @ [Title page]))"

definition offline :: ConfluenceClient where
  "offline = wiki\<lparr>HTTPClient_Do := (\<lambda>req. Inl (LibError ''dial tcp: connection refused''))\<rparr>"


text \<open>The tree under page \<open>R\<close>, with the pages as the client builds them; the empty store.\<close>

definition page_R :: Page where
  "page_R = \<lparr>ID = ''R'', Title = ''Page R'', SpaceKey = ''TEAM'', ParentID = [], Version = 1,
             Content = ''<p>R</p>'', URL = ''/pages/R''\<rparr>"

definition wiki_tree :: ptree where
  "wiki_tree =
     Node page_R
       [Node (GetChildPages_page ''R'' (rec ''A''))
          [Node (GetChildPages_page ''A'' (rec ''A1'')) []],
        Node (GetChildPages_page ''R'' (rec ''B'')) []]"


lemmas wiki_defs = lib_def wiki_def wiki_Do_def echo_def param_def wiki_pages_def wiki_spaces_def
  wiki_page_def envelope_def decode_with_def sendRequest_def build_request_def apiURL_def
  limit_def

lemmas wiki_eval = wiki_defs Itoa.simps digit_def

section \<open>Properties\<close>

subsection \<open>File names\<close>

lemma getSafeFilename_bytes: "getSafeFilename name = map safe_byte name"
  unfolding getSafeFilename_def
  by (induction name) (auto simp: safe_byte_def hostile_def)

lemma safe_byte_not_hostile: "safe_byte b \<notin> hostile"
  by (simp add: safe_byte_def hostile_def)

lemma safe_byte_fixed: "b \<notin> hostile \<Longrightarrow> safe_byte b = b"
  by (simp add: safe_byte_def hostile_def)

text \<open>
  Claim C8. Whatever the title, the name \<open>getSafeFilename\<close> returns contains none of
  \<open>/ \ : * ? " < > |\<close> and no space, has the title's length, and agrees with the title at
  every position whose byte is not one of those.
\<close>

theorem getSafeFilename_clean:
  "set (getSafeFilename name) \<inter> hostile = {}
   \<and> length (getSafeFilename name) = length name
   \<and> (\<forall>i<length name. name ! i \<notin> hostile \<longrightarrow> getSafeFilename name ! i = name ! i)"
  by (auto simp: getSafeFilename_bytes safe_byte_not_hostile safe_byte_fixed)

theorem getSafeFilename_clean_witness:
  "2 < length ''a/b c:d'' \<and> ''a/b c:d'' ! 2 \<notin> hostile
   \<and> getSafeFilename ''a/b c:d'' ! 2 = CHR ''b''
   \<and> set (getSafeFilename ''a/b c:d'') \<inter> hostile = {}
   \<and> length (getSafeFilename ''a/b c:d'') = 7"
proof -
  note clean = getSafeFilename_clean [of "''a/b c:d''"]
  have len: "2 < length ''a/b c:d''" by simp
  have ok: "''a/b c:d'' ! 2 \<notin> hostile" by (simp add: hostile_def)
  from clean len ok have "getSafeFilename ''a/b c:d'' ! 2 = ''a/b c:d'' ! 2" by blast
  with clean len ok show ?thesis by simp
qed

text \<open>
  Claim C10. \<open>getSafeFilename\<close> is idempotent: the bytes it writes, \<open>-\<close> and \<open>_\<close>, are not
  among those it rewrites.
\<close>

theorem getSafeFilename_idempotent:
  "getSafeFilename (getSafeFilename s) = getSafeFilename s"
  by (simp add: getSafeFilename_bytes safe_byte_fixed safe_byte_not_hostile)

subsection \<open>Paginated listings\<close>

lemma paginate_run:
  assumes "j \<le> k" and "\<forall>i. j \<le> i \<and> i < k \<longrightarrow> full_page fetch i"
  shows "paginate fetch conv (limit * j) acc =
           (case fetch (limit * k) of
              Inl err \<Rightarrow> Some (Inl err)
            | Inr result \<Rightarrow>
                if length (Results result) < limit
                then Some (Inr (acc @ collected fetch conv j (Suc k)))
                else paginate fetch conv (limit * Suc k) (acc @ collected fetch conv j (Suc k)))"
  using assms
proof (induction "k - j" arbitrary: j acc)
  case 0
  then have "j = k" by simp
  then show ?case
    by (subst paginate.simps)
       (simp add: collected_def page_at_def Let_def add.commute split: sum.splits)
next
  case (Suc d)
  then have lt: "j < k" and full: "full_page fetch j" by auto
  from full obtain r where r: "fetch (limit * j) = Inr r" "limit \<le> length (Results r)"
    by (auto simp: full_page_def split: sum.splits)
  have step: "paginate fetch conv (limit * j) acc =
      paginate fetch conv (limit * Suc j) (acc @ map conv (Results r))"
    using r by (subst paginate.simps) (simp add: Let_def add.commute)
  have IH: "paginate fetch conv (limit * Suc j) (acc @ map conv (Results r)) =
           (case fetch (limit * k) of
              Inl err \<Rightarrow> Some (Inl err)
            | Inr result \<Rightarrow>
                if length (Results result) < limit
                then Some (Inr ((acc @ map conv (Results r)) @ collected fetch conv (Suc j) (Suc k)))
                else paginate fetch conv (limit * Suc k)
                       ((acc @ map conv (Results r)) @ collected fetch conv (Suc j) (Suc k)))"
    using Suc.hyps(2) Suc.prems lt by (intro Suc.hyps(1)) auto
  have unfold: "collected fetch conv j (Suc k) =
      map conv (Results r) @ collected fetch conv (Suc j) (Suc k)"
    using lt r by (simp add: collected_def upt_conv_Cons page_at_def)
  show ?case unfolding step IH unfold by (simp split: sum.splits)
qed

lemma paginate_first_short:
  assumes "first_short_page fetch k"
  shows "paginate fetch conv 0 [] = Some (Inr (collected fetch conv 0 (Suc k)))"
proof -
  from assms have full: "\<forall>i. 0 \<le> i \<and> i < k \<longrightarrow> full_page fetch i"
    and short: "short_page fetch k"
    by (auto simp: first_short_page_def)
  from paginate_run [OF le0 full, of conv "[]"] short show ?thesis
    by (auto simp: short_page_def split: sum.splits)
qed

lemma paginate_first_failed:
  assumes "first_failed_page fetch k err"
  shows "paginate fetch conv 0 [] = Some (Inl err)"
proof -
  from assms have full: "\<forall>i. 0 \<le> i \<and> i < k \<longrightarrow> full_page fetch i"
    and failed: "fetch (limit * k) = Inl err"
    by (auto simp: first_failed_page_def)
  from paginate_run [OF le0 full, of conv "[]"] failed show ?thesis
    by simp
qed

lemma length_collected:
  "length (collected fetch conv 0 (Suc k)) = (\<Sum>i\<le>k. length (page_at fetch i))"
proof -
  have "length (collected fetch conv 0 (Suc k)) =
      sum_list (map (\<lambda>i. length (page_at fetch i)) [0..<Suc k])"
    by (simp add: collected_def length_concat comp_def del: upt_Suc)
  also have "\<dots> = (\<Sum>i\<in>set [0..<Suc k]. length (page_at fetch i))"
    by (rule interv_sum_list_conv_sum_set_nat)
  also have "set [0..<Suc k] = {..k}" by auto
  finally show ?thesis .
qed

lemma paginate_appends:
  assumes "paginate fetch conv start acc = Some res"
  shows "case res of Inl err \<Rightarrow> True | Inr xs \<Rightarrow> (\<exists>rs. xs = acc @ map conv rs)"
proof (rule paginate.raw_induct
    [where P = "\<lambda>fetch conv start acc res.
        case res of Inl err \<Rightarrow> True | Inr xs \<Rightarrow> (\<exists>rs. xs = acc @ map conv rs)",
     OF _ assms], goal_cases)
  case (1 pg fetch conv start acc res)
  show ?case
  proof (cases "fetch start")
    case (Inl err)
    with 1(2) show ?thesis by auto
  next
    case (Inr result)
    show ?thesis
    proof (cases "length (Results result) < limit")
      case True
      with Inr 1(2) show ?thesis by (auto simp: Let_def)
    next
      case False
      with Inr 1(2) have "pg fetch conv (start + limit) (acc @ map conv (Results result)) = Some res"
        by (simp add: Let_def)
      from 1(1)[OF this] show ?thesis
        by (cases res) (auto simp flip: map_append)
    qed
  qed
qed

lemma paginate_never_short:
  assumes "\<forall>start. \<exists>result. fetch start = Inr result \<and> limit \<le> length (Results result)"
  shows "paginate fetch conv start acc = None"
proof (rule ccontr)
  assume "paginate fetch conv start acc \<noteq> None"
  then obtain res where res: "paginate fetch conv start acc = Some res" by auto
  have "\<not> (\<forall>start. \<exists>result. fetch start = Inr result \<and> limit \<le> length (Results result))"
  proof (rule paginate.raw_induct
      [where P = "\<lambda>fetch conv start acc res.
         \<not> (\<forall>start. \<exists>result. fetch start = Inr result \<and> limit \<le> length (Results result))",
       OF _ res], goal_cases)
    case (1 pg fetch conv start acc res)
    show ?case
    proof
      assume all: "\<forall>start. \<exists>result. fetch start = Inr result \<and> limit \<le> length (Results result)"
      then obtain result where r: "fetch start = Inr result" "limit \<le> length (Results result)"
        by blast
      with 1(2) have "pg fetch conv (start + limit) (acc @ map conv (Results result)) = Some res"
        by (simp add: Let_def)
      from 1(1)[OF this] all show False by blast
    qed
  qed
  with assms show False by blast
qed

text \<open>
  Claim C1, as amended. When the responses of a listing (\<open>GetSpaces\<close>, \<open>GetPages\<close>,
  \<open>GetChildPages\<close>) at offsets \<open>0, 25, \<dots>\<close> are full up to a first response \<open>k\<close> with
  fewer than 25 records, the loop returns after that response, having asked for the
  offsets \<open>25 * i\<close> with \<open>i \<le> k\<close> only, and returns the records of responses \<open>0\<close> to \<open>k\<close>
  concatenated in response order; the length of the result is the sum of the record
  counts of these responses.
\<close>

theorem listing_collects_up_to_first_short_page:
  "(first_short_page (GetSpaces_fetch L c) k \<longrightarrow>
      GetSpaces L c = Some (Inr (collected (GetSpaces_fetch L c) (\<lambda>s. s) 0 (Suc k))))
   \<and> (first_short_page (GetPages_fetch L c spaceKey) k \<longrightarrow>
      GetPages L c spaceKey =
        Some (Inr (collected (GetPages_fetch L c spaceKey) GetPages_page 0 (Suc k))))
   \<and> (first_short_page (GetChildPages_fetch L c parentPageID) k \<longrightarrow>
      GetChildPages L c parentPageID =
        Some (Inr (collected (GetChildPages_fetch L c parentPageID)
                     (GetChildPages_page parentPageID) 0 (Suc k))))
   \<and> length (collected fetch conv 0 (Suc k)) = (\<Sum>i\<le>k. length (page_at fetch i))"
  by (simp add: GetSpaces_def GetPages_def GetChildPages_def paginate_first_short length_collected)

lemma upt_30: "[0..<30] = [0..<25] @ [25..<30]"
  using upt_add_eq_append [of 0 25 5] by simp

lemma collected_two:
  "collected fetch conv 0 (Suc 1) = map conv (page_at fetch 0) @ map conv (page_at fetch 1)"
  by (simp add: collected_def)

lemma wiki_spaces_short: "first_short_page (GetSpaces_fetch lib wiki) 1"
  by (simp add: first_short_page_def full_page_def short_page_def GetSpaces_fetch_def wiki_eval)

lemma wiki_TEAM_short: "first_short_page (GetPages_fetch lib wiki ''TEAM'') 1"
  by (simp add: first_short_page_def full_page_def short_page_def GetPages_fetch_def wiki_eval)

lemma wiki_BIG_short: "first_short_page (GetChildPages_fetch lib wiki ''BIG'') 1"
  by (simp add: first_short_page_def full_page_def short_page_def GetChildPages_fetch_def wiki_eval)

theorem listing_collects_up_to_first_short_page_witness:
  "first_short_page (GetSpaces_fetch lib wiki) 1
   \<and> GetSpaces lib wiki = Some (Inr (map (\<lambda>n. \<lparr>Key = Itoa n\<rparr>) [0..<30]))
   \<and> first_short_page (GetPages_fetch lib wiki ''TEAM'') 1
   \<and> GetPages lib wiki ''TEAM'' = Some (Inr (map (\<lambda>n. GetPages_page (rec (Itoa n))) [0..<30]))
   \<and> first_short_page (GetChildPages_fetch lib wiki ''BIG'') 1
   \<and> GetChildPages lib wiki ''BIG'' =
       Some (Inr (map (\<lambda>n. GetChildPages_page ''BIG'' (rec (Itoa n))) [0..<30]))
   \<and> length (collected (GetPages_fetch lib wiki ''TEAM'') GetPages_page 0 (Suc 1)) = 25 + 5"
proof -
  note run = listing_collects_up_to_first_short_page
    [of lib wiki 1 "''TEAM''" "''BIG''" "GetPages_fetch lib wiki ''TEAM''" GetPages_page]
  have s: "collected (GetSpaces_fetch lib wiki) (\<lambda>s. s) 0 (Suc 1) = map (\<lambda>n. \<lparr>Key = Itoa n\<rparr>) [0..<30]"
    unfolding collected_two upt_30
    by (simp add: page_at_def GetSpaces_fetch_def wiki_eval)
  have p: "collected (GetPages_fetch lib wiki ''TEAM'') GetPages_page 0 (Suc 1) =
      map (\<lambda>n. GetPages_page (rec (Itoa n))) [0..<30]"
    unfolding collected_two upt_30
    by (simp add: page_at_def GetPages_fetch_def wiki_eval)
  have ch: "collected (GetChildPages_fetch lib wiki ''BIG'') (GetChildPages_page ''BIG'') 0 (Suc 1) =
      map (\<lambda>n. GetChildPages_page ''BIG'' (rec (Itoa n))) [0..<30]"
    unfolding collected_two upt_30
    by (simp add: page_at_def GetChildPages_fetch_def wiki_eval)
  have n: "(\<Sum>i\<le>1. length (page_at (GetPages_fetch lib wiki ''TEAM'') i)) = 25 + 5"
    by (simp add: page_at_def GetPages_fetch_def wiki_eval)
  from run wiki_spaces_short wiki_TEAM_short wiki_BIG_short show ?thesis
    unfolding s p ch n by simp
qed

lemma wiki_LOOP_full:
  "\<exists>result. GetPages_fetch lib wiki ''LOOP'' start = Inr result \<and> limit \<le> length (Results result)"
  by (simp add: GetPages_fetch_def wiki_defs)

text \<open>
  Claim C1 as stated fails: the loop has no bound of its own, and against a server that
  answers every offset with a full page \<open>GetPages\<close> does not return.
\<close>

theorem listing_never_returns_counterexample:
  "GetPages lib wiki ''LOOP'' = None"
  unfolding GetPages_def
  by (rule paginate_never_short) (simp add: wiki_LOOP_full)


lemma fetch_fails_iff:
  "decode_with dec (sendRequest L c method endpoint params body) = Inl err \<longleftrightarrow>
     sendRequest L c method endpoint params body = Inl err
     \<or> (\<exists>resp. sendRequest L c method endpoint params body = Inr resp \<and> dec (Body resp) = Inl err)"
  by (auto simp: decode_with_def split: sum.splits)

text \<open>
  Claim C6. When the request or the decoding of a page of a listing fails, every page
  before it having been full, the call returns that error and none of the records it
  had accumulated. By \<open>fetch_fails_iff\<close> the failure is either the one \<open>sendRequest\<close>
  returned or the one the decoder returned on the response's body.
\<close>

theorem listing_all_or_nothing:
  "(first_failed_page (GetSpaces_fetch L c) k err \<longrightarrow> GetSpaces L c = Some (Inl err))
   \<and> (first_failed_page (GetPages_fetch L c spaceKey) k err \<longrightarrow>
        GetPages L c spaceKey = Some (Inl err))
   \<and> (first_failed_page (GetChildPages_fetch L c parentPageID) k err \<longrightarrow>
        GetChildPages L c parentPageID = Some (Inl err))"
  by (simp add: GetSpaces_def GetPages_def GetChildPages_def paginate_first_failed)

theorem listing_all_or_nothing_witness:
  "first_failed_page (GetSpaces_fetch lib offline) 0 (LibError ''dial tcp: connection refused'')
   \<and> GetSpaces lib offline = Some (Inl (LibError ''dial tcp: connection refused''))
   \<and> first_failed_page (GetPages_fetch lib offline ''TEAM'') 0 (LibError ''dial tcp: connection refused'')
   \<and> GetPages lib offline ''TEAM'' = Some (Inl (LibError ''dial tcp: connection refused''))
   \<and> first_failed_page (GetChildPages_fetch lib offline ''R'') 0 (LibError ''dial tcp: connection refused'')
   \<and> GetChildPages lib offline ''R'' = Some (Inl (LibError ''dial tcp: connection refused''))
   \<and> first_failed_page (GetPages_fetch lib wiki ''DOWN'') 1 (LibError ''context deadline exceeded'')
   \<and> GetPages lib wiki ''DOWN'' = Some (Inl (LibError ''context deadline exceeded''))
   \<and> first_failed_page (GetPages_fetch lib wiki ''TORN'') 1 (LibError ''unexpected EOF'')
   \<and> GetPages lib wiki ''TORN'' = Some (Inl (LibError ''unexpected EOF''))"
proof -
  have a: "first_failed_page (GetSpaces_fetch lib offline) 0 (LibError ''dial tcp: connection refused'')"
    by (simp add: first_failed_page_def GetSpaces_fetch_def offline_def wiki_eval)
  have b: "first_failed_page (GetPages_fetch lib offline ''TEAM'') 0 (LibError ''dial tcp: connection refused'')"
    by (simp add: first_failed_page_def GetPages_fetch_def offline_def wiki_eval)
  have d: "first_failed_page (GetChildPages_fetch lib offline ''R'') 0 (LibError ''dial tcp: connection refused'')"
    by (simp add: first_failed_page_def GetChildPages_fetch_def offline_def wiki_eval)
  have e: "first_failed_page (GetPages_fetch lib wiki ''DOWN'') 1 (LibError ''context deadline exceeded'')"
    by (simp add: first_failed_page_def full_page_def GetPages_fetch_def wiki_eval)
  have f: "first_failed_page (GetPages_fetch lib wiki ''TORN'') 1 (LibError ''unexpected EOF'')"
    by (simp add: first_failed_page_def full_page_def GetPages_fetch_def wiki_eval)
  from a b d e f
    listing_all_or_nothing [of lib offline 0 "LibError ''dial tcp: connection refused''" "''TEAM''" "''R''"]
    listing_all_or_nothing [of lib wiki 1 "LibError ''context deadline exceeded''" "''DOWN''"]
    listing_all_or_nothing [of lib wiki 1 "LibError ''unexpected EOF''" "''TORN''"]
  show ?thesis by simp
qed

lemma paginate_from_conv:
  assumes "paginate fetch conv 0 [] = Some (Inr xs)"
  shows "\<forall>x\<in>set xs. \<exists>r. x = conv r"
  using paginate_appends [OF assms] by auto

text \<open>
  Claim C9. Every page \<open>GetChildPages\<close> returns for a parent id carries that id as its
  \<open>ParentID\<close>, and every page \<open>GetPages\<close> returns has the empty \<open>ParentID\<close>.
\<close>

theorem listed_pages_ParentID:
  "(GetChildPages L c parentPageID = Some (Inr children) \<longrightarrow>
      (\<forall>p\<in>set children. ParentID p = parentPageID))
   \<and> (GetPages L c spaceKey = Some (Inr pages) \<longrightarrow> (\<forall>p\<in>set pages. ParentID p = []))"
proof (intro conjI impI ballI)
  fix p assume "GetChildPages L c parentPageID = Some (Inr children)" and "p \<in> set children"
  then obtain r where "p = GetChildPages_page parentPageID r"
    unfolding GetChildPages_def using paginate_from_conv by blast
  then show "ParentID p = parentPageID" by (simp add: GetChildPages_page_def)
next
  fix p assume "GetPages L c spaceKey = Some (Inr pages)" and "p \<in> set pages"
  then obtain r where "p = GetPages_page r"
    unfolding GetPages_def using paginate_from_conv by blast
  then show "ParentID p = []" by (simp add: GetPages_page_def)
qed

lemma wiki_children_R:
  "GetChildPages lib wiki ''R'' =
     Some (Inr [GetChildPages_page ''R'' (rec ''A''), GetChildPages_page ''R'' (rec ''B'')])"
  by (simp add: GetChildPages_def paginate.simps GetChildPages_fetch_def wiki_eval)

lemma wiki_pages_DOCS:
  "GetPages lib wiki ''DOCS'' =
     Some (Inr [GetPages_page (rec ''1''), GetPages_page (rec ''2''), GetPages_page (rec ''3'')])"
  by (simp add: GetPages_def paginate.simps GetPages_fetch_def wiki_eval)

theorem listed_pages_ParentID_witness:
  "GetChildPages lib wiki ''R'' =
     Some (Inr [GetChildPages_page ''R'' (rec ''A''), GetChildPages_page ''R'' (rec ''B'')])
   \<and> ParentID (GetChildPages_page ''R'' (rec ''A'')) = ''R''
   \<and> ParentID (GetChildPages_page ''R'' (rec ''B'')) = ''R''
   \<and> GetPages lib wiki ''DOCS'' =
     Some (Inr [GetPages_page (rec ''1''), GetPages_page (rec ''2''), GetPages_page (rec ''3'')])
   \<and> ParentID (GetPages_page (rec ''1'')) = []
   \<and> ParentID (GetPages_page (rec ''2'')) = []
   \<and> ParentID (GetPages_page (rec ''3'')) = []"
  using listed_pages_ParentID
    [of lib wiki "''R''" "[GetChildPages_page ''R'' (rec ''A''), GetChildPages_page ''R'' (rec ''B'')]"
        "''DOCS''" "[GetPages_page (rec ''1''), GetPages_page (rec ''2''), GetPages_page (rec ''3'')]"]
    wiki_children_R wiki_pages_DOCS
  by simp

subsection \<open>Tree resolver\<close>

lemma appendSubtrees_preorder:
  assumes "\<And>t. t \<in> set ts \<Longrightarrow> collect (root t) = Some (Inr (preorder t))"
  shows "appendSubtrees collect (map root ts) pages = Some (Inr (pages @ concat (map preorder ts)))"
  using assms by (induction ts arbitrary: pages) simp_all

lemma collectChildPages_preorder:
  "serves L c t \<Longrightarrow> collectChildPages L c (root t) = Some (Inr (preorder t))"
proof (induction t)
  case (Node p ts)
  from Node.prems have listing: "GetChildPages L c (ID p) = Some (Inr (map root ts))"
    and served: "\<And>t. t \<in> set ts \<Longrightarrow> serves L c t"
    by (simp_all add: list_all_iff)
  have "appendSubtrees (collectChildPages L c) (map root ts) [p] =
      Some (Inr ([p] @ concat (map preorder ts)))"
    by (rule appendSubtrees_preorder) (simp add: Node.IH served)
  with listing show ?case
    by (subst collectChildPages.simps) simp
qed

lemma fetchPageTree_preorder:
  assumes "GetPage L c rootPageID = Inr rootPage" and "serves L c (Node rootPage ts)"
  shows "fetchPageTree L c rootPageID = Some (Inr (preorder (Node rootPage ts)))"
proof -
  from assms(2) have listing: "GetChildPages L c (ID rootPage) = Some (Inr (map root ts))"
    and served: "\<And>t. t \<in> set ts \<Longrightarrow> serves L c t"
    by (simp_all add: list_all_iff)
  have "appendSubtrees (collectChildPages L c) (map root ts) [rootPage] =
      Some (Inr ([rootPage] @ concat (map preorder ts)))"
    by (rule appendSubtrees_preorder) (simp add: collectChildPages_preorder served)
  with assms(1) listing show ?thesis
    by (simp add: fetchPageTree_def)
qed

lemma length_preorder: "length (preorder t) = nodes t"
proof (induction t)
  case (Node p ts)
  then have "map (length \<circ> preorder) ts = map nodes ts" by simp
  then have "sum_list (map (length \<circ> preorder) ts) = sum_list (map nodes ts)"
    by (rule arg_cong)
  then show ?case by (simp add: length_concat)
qed

text \<open>
  Claim C3. When the client serves a finite page tree whose root is the page \<open>GetPage\<close>
  returns for \<open>rootPageID\<close>, \<open>fetchPageTree\<close> returns the pages of the tree in pre-order: the
  root, then the subtree of each child in full before the next child's. The result has
  one entry for every node. For \<open>R\<close> with children \<open>A\<close> and \<open>B\<close>, where \<open>A\<close> has child \<open>A1\<close>,
  the result is \<open>R, A, A1, B\<close>.
\<close>

theorem fetchPageTree_returns_preorder:
  assumes "GetPage L c rootPageID = Inr rootPage" and "serves L c (Node rootPage ts)"
  shows "fetchPageTree L c rootPageID = Some (Inr (preorder (Node rootPage ts)))
         \<and> length (preorder (Node rootPage ts)) = nodes (Node rootPage ts)"
  using fetchPageTree_preorder [OF assms] length_preorder [of "Node rootPage ts"] by simp

lemma wiki_GetPage_R: "GetPage lib wiki ''R'' = Inr page_R"
  by (simp add: GetPage_def page_R_def one_def wiki_eval)

lemma wiki_children:
  "GetChildPages lib wiki ''R'' =
     Some (Inr [GetChildPages_page ''R'' (rec ''A''), GetChildPages_page ''R'' (rec ''B'')])"
  "GetChildPages lib wiki ''A'' = Some (Inr [GetChildPages_page ''A'' (rec ''A1'')])"
  "GetChildPages lib wiki ''A1'' = Some (Inr [])"
  "GetChildPages lib wiki ''B'' = Some (Inr [])"
  by (simp_all add: GetChildPages_def paginate.simps GetChildPages_fetch_def wiki_eval)

lemma wiki_serves_tree: "serves lib wiki wiki_tree"
  by (simp add: wiki_tree_def page_R_def wiki_children)
     (simp add: GetChildPages_page_def rec_def wiki_children)

theorem fetchPageTree_returns_preorder_witness:
  "GetPage lib wiki ''R'' = Inr page_R \<and> serves lib wiki wiki_tree
   \<and> fetchPageTree lib wiki ''R'' =
       Some (Inr [page_R, GetChildPages_page ''R'' (rec ''A''),
                  GetChildPages_page ''A'' (rec ''A1''), GetChildPages_page ''R'' (rec ''B'')])
   \<and> map ID [page_R, GetChildPages_page ''R'' (rec ''A''),
              GetChildPages_page ''A'' (rec ''A1''), GetChildPages_page ''R'' (rec ''B'')]
       = [''R'', ''A'', ''A1'', ''B'']"
proof -
  have ids: "map ID [page_R, GetChildPages_page ''R'' (rec ''A''),
              GetChildPages_page ''A'' (rec ''A1''), GetChildPages_page ''R'' (rec ''B'')]
       = [''R'', ''A'', ''A1'', ''B'']"
    by (simp add: page_R_def GetChildPages_page_def rec_def)
  from fetchPageTree_returns_preorder [OF wiki_GetPage_R wiki_serves_tree [unfolded wiki_tree_def]]
    wiki_GetPage_R wiki_serves_tree ids
  show ?thesis by simp
qed

lemma wiki_children_PQ:
  "GetChildPages lib wiki ''P'' = Some (Inr [GetChildPages_page ''P'' (rec ''Q'')])"
  "GetChildPages lib wiki ''Q'' = Some (Inr [GetChildPages_page ''Q'' (rec ''P'')])"
  by (simp_all add: GetChildPages_def paginate.simps GetChildPages_fetch_def wiki_eval)

lemma collectChildPages_cycle:
  assumes "collectChildPages L c page = Some res"
  shows "\<not> (L = lib \<and> c = wiki \<and> (ID page = ''P'' \<or> ID page = ''Q''))"
proof (rule collectChildPages.raw_induct
    [where P = "\<lambda>L c page res. \<not> (L = lib \<and> c = wiki \<and> (ID page = ''P'' \<or> ID page = ''Q''))",
     OF _ assms], goal_cases)
  case (1 collect L c page res)
  show ?case
  proof
    assume a: "L = lib \<and> c = wiki \<and> (ID page = ''P'' \<or> ID page = ''Q'')"
    then obtain child where
      listing: "GetChildPages lib wiki (ID page) = Some (Inr [child])"
      and child: "ID child = ''P'' \<or> ID child = ''Q''"
      by (auto simp: wiki_children_PQ GetChildPages_page_def rec_def)
    from 1(2) a listing have "appendSubtrees (collect lib wiki) [child] [page] = Some res"
      by simp
    then obtain sub where "collect lib wiki child = Some sub"
      by (cases "collect lib wiki child") auto
    from 1(1) [OF this] child show False by simp
  qed
qed

lemma collectChildPages_P_Q:
  "ID page = ''P'' \<or> ID page = ''Q'' \<Longrightarrow> collectChildPages lib wiki page = None"
  using collectChildPages_cycle [of lib wiki page] by (cases "collectChildPages lib wiki page") auto

text \<open>
  Claim C2 as stated fails: the resolver keeps no set of visited ids, and where two pages
  list each other as child the walk does not return.
\<close>

theorem fetchPageTree_cycle_counterexample:
  "fetchPageTree lib wiki ''P'' = None"
proof -
  have "GetPage lib wiki ''P'' = Inr \<lparr>ID = ''P'', Title = ''Page P'', SpaceKey = ''TEAM'',
      ParentID = [], Version = 1, Content = ''<p>P</p>'', URL = ''/pages/P''\<rparr>"
    by (simp add: GetPage_def one_def wiki_eval)
  moreover have "collectChildPages lib wiki (GetChildPages_page ''P'' (rec ''Q'')) = None"
    by (rule collectChildPages_P_Q) (simp add: GetChildPages_page_def rec_def)
  ultimately show ?thesis
    by (simp add: fetchPageTree_def wiki_children_PQ)
qed

text \<open>
  Claim C2, as amended. When the client serves a finite tree in which no page id occurs
  twice, \<open>fetchPageTree\<close> returns, and its result holds the pages of the tree with every
  id exactly once.
\<close>

theorem fetchPageTree_tree_once:
  assumes "GetPage L c rootPageID = Inr rootPage" and "serves L c (Node rootPage ts)"
    and "distinct (map ID (preorder (Node rootPage ts)))"
  shows "\<exists>pages. fetchPageTree L c rootPageID = Some (Inr pages)
           \<and> distinct (map ID pages)
           \<and> set pages = set (preorder (Node rootPage ts))"
  using fetchPageTree_preorder [OF assms(1,2)] assms(3) by simp

theorem fetchPageTree_tree_once_witness:
  "GetPage lib wiki ''R'' = Inr page_R \<and> serves lib wiki wiki_tree
   \<and> distinct (map ID (preorder wiki_tree))
   \<and> (\<exists>pages. fetchPageTree lib wiki ''R'' = Some (Inr pages)
           \<and> distinct (map ID pages) \<and> set pages = set (preorder wiki_tree))"
proof -
  have d: "distinct (map ID (preorder wiki_tree))"
    by (simp add: wiki_tree_def page_R_def GetChildPages_page_def rec_def)
  from fetchPageTree_tree_once
    [OF wiki_GetPage_R wiki_serves_tree [unfolded wiki_tree_def] d [unfolded wiki_tree_def]]
    wiki_GetPage_R wiki_serves_tree d
  show ?thesis by (simp add: wiki_tree_def)
qed

subsection \<open>Transport\<close>

text \<open>
  Claim C5, as amended. \<open>sendRequest\<close> returns an error exactly when \<open>url.Parse\<close>,
  \<open>http.NewRequest\<close> or the client's \<open>Do\<close> returned it; a response that \<open>Do\<close> returns is
  handed to the caller as it is, whatever its status.
\<close>

theorem sendRequest_surfaces:
  "(sendRequest L c method endpoint params body = Inl err \<longleftrightarrow>
      url_Parse L (BaseURL c) = Some err
      \<or> (url_Parse L (BaseURL c) = None
          \<and> http_NewRequest L method (apiURL c endpoint params) body = Some err)
      \<or> (url_Parse L (BaseURL c) = None
          \<and> http_NewRequest L method (apiURL c endpoint params) body = None
          \<and> HTTPClient_Do c (build_request L c method endpoint params body) = Inl err))
   \<and> (url_Parse L (BaseURL c) = None
        \<and> http_NewRequest L method (apiURL c endpoint params) body = None
        \<and> HTTPClient_Do c (build_request L c method endpoint params body) = Inr resp
      \<longrightarrow> sendRequest L c method endpoint params body = Inr resp)"
  by (auto simp: sendRequest_def split: option.splits)

theorem sendRequest_surfaces_witness:
  "url_Parse lib (BaseURL wiki) = None
   \<and> http_NewRequest lib ''GET'' (apiURL wiki ''/rest/api/content'' (Some [(''spaceKey'', ''GONE'')])) None = None
   \<and> HTTPClient_Do wiki (build_request lib wiki ''GET'' ''/rest/api/content'' (Some [(''spaceKey'', ''GONE'')]) None)
       = Inr \<lparr>StatusCode = 404, Body = ''gone''\<rparr>
   \<and> sendRequest lib wiki ''GET'' ''/rest/api/content'' (Some [(''spaceKey'', ''GONE'')]) None
       = Inr \<lparr>StatusCode = 404, Body = ''gone''\<rparr>
   \<and> sendRequest lib offline ''GET'' ''/rest/api/space'' None None
       = Inl (LibError ''dial tcp: connection refused'')"
proof -
  have a: "url_Parse lib (BaseURL wiki) = None" by (simp add: lib_def)
  have b: "http_NewRequest lib ''GET''
      (apiURL wiki ''/rest/api/content'' (Some [(''spaceKey'', ''GONE'')])) None = None"
    by (simp add: lib_def)
  have d: "HTTPClient_Do wiki
      (build_request lib wiki ''GET'' ''/rest/api/content'' (Some [(''spaceKey'', ''GONE'')]) None)
       = Inr \<lparr>StatusCode = 404, Body = ''gone''\<rparr>"
    by (simp add: wiki_defs)
  have e: "url_Parse lib (BaseURL offline) = None"
    "http_NewRequest lib ''GET'' (apiURL offline ''/rest/api/space'' None) None = None"
    "HTTPClient_Do offline (build_request lib offline ''GET'' ''/rest/api/space'' None None)
       = Inl (LibError ''dial tcp: connection refused'')"
    by (simp_all add: lib_def offline_def)
  from a b d e
    sendRequest_surfaces [of lib wiki "''GET''" "''/rest/api/content''"
      "Some [(''spaceKey'', ''GONE'')]" None _ "\<lparr>StatusCode = 404, Body = ''gone''\<rparr>"]
    sendRequest_surfaces [of lib offline "''GET''" "''/rest/api/space''" None None
      "LibError ''dial tcp: connection refused''"]
  show ?thesis by simp
qed

text \<open>
  Claim C5 as stated fails: a response with status 404 is returned as a result, not as an
  error, and \<open>GetPages\<close> turns it into an empty listing.
\<close>

theorem sendRequest_non2xx_counterexample:
  "sendRequest lib wiki ''GET'' ''/rest/api/content''
      (Some [(''spaceKey'', ''GONE''), (''type'', ''page''),
             (''expand'', ''body.storage,version,space''),
             (''start'', ''0''), (''limit'', ''25'')]) None
     = Inr \<lparr>StatusCode = 404, Body = ''gone''\<rparr>
   \<and> \<not> is2xx 404
   \<and> GetPages lib wiki ''GONE'' = Some (Inr [])"
  by (simp add: is2xx_def GetPages_def paginate.simps GetPages_fetch_def wiki_eval)

subsection \<open>Pipeline driver\<close>

lemma failures_Nil: "failures save c spaceKey h [] = []"
  by (simp add: failures_def)

lemma handler_after_Cons:
  "handler_after save c spaceKey h (p # ps) =
     handler_after save c spaceKey (snd (save h c p spaceKey)) ps"
  by (simp add: handler_after_def)

lemma failures_Cons:
  "failures save c spaceKey h (p # ps) =
     (case fst (save h c p spaceKey) of
        None \<Rightarrow> []
      | Some err \<Rightarrow> [Failed_to_save_page (Title p) err])
     @ failures save c spaceKey (snd (save h c p spaceKey)) ps"
proof -
  have idx: "[0..<length (p # ps)] = 0 # map Suc [0..<length ps]"
    by (simp add: upt_conv_Cons map_Suc_upt del: upt_Suc)
  show ?thesis
    unfolding failures_def idx
    by (simp add: handler_after_def comp_def cong: option.case_cong)
qed

lemma savePages_eq:
  "savePages save c spaceKey pages (h, logged) =
     (handler_after save c spaceKey h pages, logged @ failures save c spaceKey h pages)"
proof (induction pages arbitrary: h logged)
  case Nil
  show ?case by (simp add: failures_Nil handler_after_def)
next
  case (Cons p ps)
  show ?case
    by (cases "save h c p spaceKey"; cases "fst (save h c p spaceKey)")
       (simp_all add: Cons.IH failures_Cons handler_after_Cons)
qed

text \<open>
  Claim C7. Once the listing of the space has succeeded, \<open>exportSpace\<close> returns \<open>nil\<close>
  whatever \<open>SavePage\<close> does: \<open>SavePage\<close> has been called on every page in order, and the log
  holds one line, with the page's title, for every page whose \<open>SavePage\<close> failed.
\<close>

theorem exportSpace_isolates_page_failures:
  assumes "GetPages L c spaceKey = Some (Inr pages)"
  shows "exportSpace L c spaceKey save (h, logged) =
           Some (None, handler_after save c spaceKey h pages,
                 logged @ [Fetching_pages_from_space spaceKey,
                           Found_pages_to_export (length pages) spaceKey]
                        @ failures save c spaceKey h pages)"
  using assms by (simp add: exportSpace_def savePages_eq)

theorem exportSpace_isolates_page_failures_witness:
  "GetPages lib wiki ''DOCS'' =
     Some (Inr [GetPages_page (rec ''1''), GetPages_page (rec ''2''), GetPages_page (rec ''3'')])
   \<and> exportSpace lib wiki ''DOCS'' flaky_save ([], []) =
       Some (None, [''Page 1'', ''Page 3''],
             [Fetching_pages_from_space ''DOCS'', Found_pages_to_export 3 ''DOCS'',
              Failed_to_save_page ''Page 2'' (LibError ''no space left on device'')])"
proof -
  let ?pages = "[GetPages_page (rec ''1''), GetPages_page (rec ''2''), GetPages_page (rec ''3'')]"
  have h: "handler_after flaky_save wiki ''DOCS'' [] ?pages = [''Page 1'', ''Page 3'']"
    by (simp add: handler_after_def flaky_save_def GetPages_page_def rec_def)
  have f: "failures flaky_save wiki ''DOCS'' [] ?pages =
      [Failed_to_save_page ''Page 2'' (LibError ''no space left on device'')]"
    by (simp add: failures_Cons failures_Nil flaky_save_def GetPages_page_def rec_def)
  from exportSpace_isolates_page_failures [OF wiki_pages_DOCS, of flaky_save "[]" "[]"]
    wiki_pages_DOCS
  show ?thesis unfolding h f by simp
qed

subsection \<open>Embedded store\<close>





lemma InitDB_primary_key:
  assumes "sql_Open dbPath = Inr db0" and "\<not> closed db0"
    and "case pages_table db0 of None \<Rightarrow> True | Some rows \<Rightarrow> distinct (map col_uid rows)"
  shows "\<exists>db. InitDB sql_Open dbPath = Inr db \<and> primary_key_holds db"
  using assms
  by (auto simp: InitDB_def Exec_create_table_def primary_key_holds_def split: option.splits)



end
